theory Spec2Isabelle
  imports Complex_Main "HOL-Library.Char_ord" "HOL-Library.List_Lexorder"
begin

section \<open>Calendar dates\<close>

text \<open>
  The script handles dates through \<^verbatim>\<open>datetime.date\<close> (in \<^verbatim>\<open>validate_dates\<close>) and through
  midnight \<^verbatim>\<open>pandas.Timestamp\<close>s (in \<^verbatim>\<open>process_data\<close>).  Both are proleptic Gregorian
  calendar dates; they are modelled by one record of year, month and day.  The functions
  below follow CPython's \<^verbatim>\<open>datetime\<close> module (\<^verbatim>\<open>_is_leap\<close>, \<^verbatim>\<open>_days_in_month\<close>,
  \<^verbatim>\<open>_days_before_year\<close>, \<^verbatim>\<open>_days_before_month\<close>, \<^verbatim>\<open>_ymd2ord\<close>).
\<close>

record date =
  year :: nat
  month :: nat
  day :: nat

definition is_leap :: "nat \<Rightarrow> bool" where
  "is_leap y \<longleftrightarrow> y mod 4 = 0 \<and> (y mod 100 \<noteq> 0 \<or> y mod 400 = 0)"

definition days_in_month :: "nat \<Rightarrow> nat \<Rightarrow> nat" where
  "days_in_month y m =
     (if m = 2 then (if is_leap y then 29 else 28)
      else if m = 4 \<or> m = 6 \<or> m = 9 \<or> m = 11 then 30
      else 31)"

definition days_before_year :: "nat \<Rightarrow> int" where
  "days_before_year y =
     (let p = int y - 1 in p * 365 + p div 4 - p div 100 + p div 400)"

definition days_before_month :: "nat \<Rightarrow> nat \<Rightarrow> int" where
  "days_before_month y m =
     int ([0, 0, 31, 59, 90, 120, 151, 181, 212, 243, 273, 304, 334] ! m)
       + (if 2 < m \<and> is_leap y then 1 else 0)"

definition toordinal :: "date \<Rightarrow> int" where
  "toordinal d = days_before_year (year d) + days_before_month (year d) (month d) + int (day d)"

text \<open>The dates a \<^verbatim>\<open>datetime.date\<close> can hold: the constructor raises \<^verbatim>\<open>ValueError\<close> otherwise.\<close>

definition valid_date :: "date \<Rightarrow> bool" where
  "valid_date d \<longleftrightarrow>
     1 \<le> year d \<and> year d \<le> 9999 \<and> 1 \<le> month d \<and> month d \<le> 12
       \<and> 1 \<le> day d \<and> day d \<le> days_in_month (year d) (month d)"

text \<open>Comparison of dates is comparison of the triples (year, month, day).\<close>

definition date_less :: "date \<Rightarrow> date \<Rightarrow> bool" where
  "date_less a b \<longleftrightarrow>
     year a < year b \<or> (year a = year b \<and> (month a < month b
       \<or> (month a = month b \<and> day a < day b)))"

definition date_le :: "date \<Rightarrow> date \<Rightarrow> bool" where
  "date_le a b \<longleftrightarrow> date_less a b \<or> a = b"

text \<open>\<^verbatim>\<open>(b - a).days\<close>: the difference of two dates, in days.\<close>

definition days_between :: "date \<Rightarrow> date \<Rightarrow> int" where
  "days_between a b = toordinal b - toordinal a"

text \<open>The day after a date: the step of a daily \<^verbatim>\<open>date_range\<close>.\<close>

definition next_day :: "date \<Rightarrow> date" where
  "next_day d =
     (if day d < days_in_month (year d) (month d) then d\<lparr>day := day d + 1\<rparr>
      else if month d < 12 then d\<lparr>month := month d + 1, day := 1\<rparr>
      else d\<lparr>year := year d + 1, month := 1, day := 1\<rparr>)"

section \<open>Decimal text\<close>

definition digit_char :: "nat \<Rightarrow> char" where
  "digit_char n = char_of (48 + n)"

fun dec :: "nat \<Rightarrow> string" where
  "dec n = (if n < 10 then [digit_char n] else dec (n div 10) @ [digit_char (n mod 10)])"

declare dec.simps [simp del]

text \<open>\<^verbatim>\<open>%0wd\<close>: decimal, padded on the left with zeros to at least \<open>w\<close> characters.\<close>

definition zfill :: "nat \<Rightarrow> nat \<Rightarrow> string" where
  "zfill w n = replicate (w - length (dec n)) (CHR ''0'') @ dec n"

text \<open>\<^verbatim>\<open>str(d)\<close> of a \<^verbatim>\<open>datetime.date\<close>: ISO format.\<close>

definition isoformat :: "date \<Rightarrow> string" where
  "isoformat d = zfill 4 (year d) @ ''-'' @ zfill 2 (month d) @ ''-'' @ zfill 2 (day d)"

text \<open>
  \<^verbatim>\<open>f'{date:%Y/%m/%d}'\<close>.  The C library pads \<^verbatim>\<open>%m\<close> and \<^verbatim>\<open>%d\<close> to two digits; the years
  of the dates handled here have four digits.
\<close>

definition strftime_path :: "date \<Rightarrow> string" where
  "strftime_path d = zfill 4 (year d) @ ''/'' @ zfill 2 (month d) @ ''/'' @ zfill 2 (day d)"

section \<open>Parsing the command-line dates\<close>

text \<open>
  \<^verbatim>\<open>datetime.strptime(s, '%Y%m%d')\<close> compiles the format to the regular expression
  \<^verbatim>\<open>(?P<Y>\d\d\d\d)(?P<m>1[0-2]|0[1-9]|[1-9])(?P<d>3[0-1]|[1-2]\d|0[1-9]|[1-9]| [1-9])\<close>,
  matches it at the start of the string (alternatives in order, backtracking from the day
  into the month), raises \<^verbatim>\<open>ValueError\<close> when there is no match or when text remains
  after the match, and raises \<^verbatim>\<open>ValueError\<close> when the three numbers are not a date.
  Characters are bytes here, so the digits are the ASCII digits.
\<close>

definition is_digit :: "char \<Rightarrow> bool" where
  "is_digit c \<longleftrightarrow> CHR ''0'' \<le> c \<and> c \<le> CHR ''9''"

definition digit_val :: "char \<Rightarrow> nat" where
  "digit_val c = of_char c - 48"

definition in_range :: "char \<Rightarrow> char \<Rightarrow> char \<Rightarrow> bool" where
  "in_range lo hi c \<longleftrightarrow> lo \<le> c \<and> c \<le> hi"

text \<open>The group \<^verbatim>\<open>d\<close>: the first alternative that matches, with the text after it.\<close>

fun match_d :: "string \<Rightarrow> (nat \<times> string) option" where
  "match_d (a # b # r) =
     (if a = CHR ''3'' \<and> in_range (CHR ''0'') (CHR ''1'') b then Some (30 + digit_val b, r)
      else if in_range (CHR ''1'') (CHR ''2'') a \<and> is_digit b
        then Some (10 * digit_val a + digit_val b, r)
      else if a = CHR ''0'' \<and> in_range (CHR ''1'') (CHR ''9'') b then Some (digit_val b, r)
      else if in_range (CHR ''1'') (CHR ''9'') a then Some (digit_val a, b # r)
      else if a = CHR '' '' \<and> in_range (CHR ''1'') (CHR ''9'') b then Some (digit_val b, r)
      else None)"
| "match_d [a] = (if in_range (CHR ''1'') (CHR ''9'') a then Some (digit_val a, []) else None)"
| "match_d [] = None"

text \<open>The group \<^verbatim>\<open>m\<close>: every alternative that matches, in the order the matcher tries them.\<close>

fun match_m :: "string \<Rightarrow> (nat \<times> string) list" where
  "match_m (a # b # r) =
     (if a = CHR ''1'' \<and> in_range (CHR ''0'') (CHR ''2'') b then [(10 + digit_val b, r)] else [])
     @ (if a = CHR ''0'' \<and> in_range (CHR ''1'') (CHR ''9'') b then [(digit_val b, r)] else [])
     @ (if in_range (CHR ''1'') (CHR ''9'') a then [(digit_val a, b # r)] else [])"
| "match_m [a] = (if in_range (CHR ''1'') (CHR ''9'') a then [(digit_val a, [])] else [])"
| "match_m [] = []"

text \<open>Month and day: the first month alternative after which a day matches.\<close>

fun match_md :: "(nat \<times> string) list \<Rightarrow> (nat \<times> nat \<times> string) option" where
  "match_md [] = None"
| "match_md ((m, r) # alts) =
     (case match_d r of Some (d, r') \<Rightarrow> Some (m, d, r') | None \<Rightarrow> match_md alts)"

fun strptime :: "string \<Rightarrow> date option" where
  "strptime (a # b # c # e # r) =
     (if is_digit a \<and> is_digit b \<and> is_digit c \<and> is_digit e then
        (case match_md (match_m r) of
           None \<Rightarrow> None
         | Some (m, d, r') \<Rightarrow>
             (let dt = \<lparr>year = 1000 * digit_val a + 100 * digit_val b + 10 * digit_val c
                                + digit_val e,
                        month = m, day = d\<rparr>
              in if r' = [] \<and> valid_date dt then Some dt else None))
      else None)"
| "strptime _ = None"

declare strptime.simps [simp del]

section \<open>Validation\<close>

definition API_START_DATE :: date where
  "API_START_DATE = \<lparr>year = 2015, month = 7, day = 1\<rparr>"

definition MAX_DAYS_RANGE :: int where
  "MAX_DAYS_RANGE = 365"

text \<open>
  \<^verbatim>\<open>validate_dates\<close> reads the clock (\<^verbatim>\<open>datetime.now().date()\<close>); the date it reads is
  the parameter \<open>current_date\<close>.  The result is the error message, or \<open>None\<close>.
\<close>

definition validate_dates :: "date \<Rightarrow> string \<Rightarrow> string \<Rightarrow> string option" where
  "validate_dates current_date start_str end_str =
     (case strptime start_str of
        None \<Rightarrow> Some ''Error: Invalid date format. Use YYYYMMDD''
      | Some start_dt \<Rightarrow>
     (case strptime end_str of
        None \<Rightarrow> Some ''Error: Invalid date format. Use YYYYMMDD''
      | Some end_dt \<Rightarrow>
          if \<not> date_less start_dt current_date \<or> \<not> date_less end_dt current_date then
            Some (''Error: Dates must be strictly before '' @ isoformat current_date
                    @ '' (no today or future dates)'')
          else if date_le end_dt start_dt then
            Some ''Error: End date must be > start date''
          else if date_less start_dt API_START_DATE then
            Some (''Error: Dates must be >= '' @ isoformat API_START_DATE)
          else if days_between start_dt end_dt > MAX_DAYS_RANGE then
            Some (''Error: Date range must be <= '' @ dec (nat MAX_DAYS_RANGE) @ '' days'')
          else None))"

section \<open>The pageviews API\<close>

definition API_BASE_URL :: string where
  "API_BASE_URL = ''https://wikimedia.org/api/rest_v1/metrics/pageviews/top''"

definition PROJECT :: string where
  "PROJECT = ''en.wikipedia.org''"

definition ACCESS_MODE :: string where
  "ACCESS_MODE = ''all-access''"

definition TOP_ARTICLES_COUNT :: nat where
  "TOP_ARTICLES_COUNT = 20"

text \<open>
  An element of \<^verbatim>\<open>data['items'][0]['articles']\<close> is a dictionary with the keys
  \<^verbatim>\<open>article\<close>, \<^verbatim>\<open>views\<close> and \<^verbatim>\<open>rank\<close>; \<^verbatim>\<open>process_data\<close> adds the key \<^verbatim>\<open>date\<close>, and
  the dictionaries become the rows of the dataframe.  View counts are Python integers;
  the 64-bit columns of pandas are modelled without wrap-around.
\<close>

record item =
  article :: string
  views :: int
  rank :: nat

record row = item +
  date :: date

text \<open>
  What \<^verbatim>\<open>requests.get\<close> and the reading of the response can do, as far as
  \<^verbatim>\<open>fetch_daily_articles\<close> tells the cases apart: the call raises \<^verbatim>\<open>Timeout\<close>, raises
  \<^verbatim>\<open>ConnectionError\<close>, raises something else, or returns a response with a status code
  and a body; the body is \<open>None\<close> when \<^verbatim>\<open>response.json()\<close> or
  \<^verbatim>\<open>data['items'][0]['articles']\<close> raises.  The network is a function from the URL.
\<close>

datatype http_outcome =
    Timeout
  | ConnectionError
  | OtherException
  | Response nat "item list option"

type_synonym network = "string \<Rightarrow> http_outcome"

datatype warning = TimeoutWarning date | ConnectionWarning date | UnexpectedWarning date

datatype locator = DayLocator nat | MonthLocator nat

text \<open>The figure handed to \<^verbatim>\<open>savefig\<close>: the arguments of the plotting calls.\<close>

record chart =
  data :: "row list"
  col_order :: "string list"
  col_wrap :: nat
  period_str :: string
  title_metrics :: "int \<times> rat \<times> nat"
  date_format :: string
  major_locator :: locator

text \<open>
  The effects of a run, in order: an HTTP GET of a URL, a line on standard output,
  a warning on standard error (which of the three \<^verbatim>\<open>print\<close> calls, and its date),
  a figure saved under a file name.
\<close>

datatype event =
    HttpGet string
  | Stdout string
  | Stderr warning
  | SaveFig string chart

datatype error = ValueError | TypeError

definition fetch_daily_articles :: "network \<Rightarrow> date \<Rightarrow> event list \<times> item list" where
  "fetch_daily_articles net d =
     (let url = API_BASE_URL @ ''/'' @ PROJECT @ ''/'' @ ACCESS_MODE @ ''/'' @ strftime_path d
      in case net url of
           Timeout \<Rightarrow> ([HttpGet url, Stderr (TimeoutWarning d)], [])
         | ConnectionError \<Rightarrow> ([HttpGet url, Stderr (ConnectionWarning d)], [])
         | OtherException \<Rightarrow> ([HttpGet url, Stderr (UnexpectedWarning d)], [])
         | Response status_code body \<Rightarrow>
             if status_code = 404 then ([HttpGet url], [])
             else if 400 \<le> status_code \<and> status_code < 600
               then ([HttpGet url, Stderr (UnexpectedWarning d)], [])
             else (case body of
                     None \<Rightarrow> ([HttpGet url, Stderr (UnexpectedWarning d)], [])
                   | Some articles \<Rightarrow> ([HttpGet url], articles)))"

section \<open>The date range\<close>

text \<open>
  \<^verbatim>\<open>process_data\<close> receives the two command-line strings and hands them to
  \<^verbatim>\<open>pandas.date_range\<close>, which reads them with the parser of pandas, not with
  \<^verbatim>\<open>strptime\<close>.  That parser reads a string of eight digits as \<^verbatim>\<open>YYYYMMDD\<close>.  Its
  ISO reader refuses \<^verbatim>\<open>YYYYMM\<close> without separators and a one-digit month or day without
  separators, and its fallback reads six digits as \<^verbatim>\<open>YYMMDD\<close>: each of the other strings
  that \<open>strptime\<close> accepts with a year of this century makes it raise a
  \<^verbatim>\<open>ValueError\<close>.  The model covers the strings on which \<open>strptime\<close> succeeds.
\<close>

definition number :: "string \<Rightarrow> nat" where
  "number s = foldl (\<lambda>n c. 10 * n + digit_val c) 0 s"

definition pd_Timestamp :: "string \<Rightarrow> error + date" where
  "pd_Timestamp s =
     (if length s = 8 \<and> list_all is_digit s then
        (let dt = \<lparr>year = number (take 4 s), month = number (take 2 (drop 4 s)),
                   day = number (drop 6 s)\<rparr>
         in if valid_date dt then Inr dt else Inl ValueError)
      else Inl ValueError)"

fun days_from :: "date \<Rightarrow> nat \<Rightarrow> date list" where
  "days_from d 0 = []"
| "days_from d (Suc n) = d # days_from (next_day d) n"

text \<open>Daily frequency, both ends included; empty when the end is before the start.\<close>

definition date_range :: "date \<Rightarrow> date \<Rightarrow> date list" where
  "date_range a b =
     (if toordinal b < toordinal a then [] else days_from a (Suc (nat (toordinal b - toordinal a))))"

definition pd_date_range :: "string \<Rightarrow> string \<Rightarrow> error + date list" where
  "pd_date_range start_date end_date =
     (case pd_Timestamp start_date of
        Inl e \<Rightarrow> Inl e
      | Inr a \<Rightarrow> (case pd_Timestamp end_date of
                    Inl e \<Rightarrow> Inl e
                  | Inr b \<Rightarrow> Inr (date_range a b)))"

section \<open>Dataframe operations\<close>

text \<open>
  A dataframe is the list of its rows.  \<^verbatim>\<open>groupby(key)['views']\<close> followed by an
  aggregation: one entry per distinct key, the keys in ascending order.
\<close>

definition groupby_views ::
  "('k \<Rightarrow> 'o::linorder) \<Rightarrow> (row \<Rightarrow> 'k) \<Rightarrow> (int list \<Rightarrow> 'v) \<Rightarrow> row list \<Rightarrow> ('k \<times> 'v) list" where
  "groupby_views ord key agg df =
     map (\<lambda>k. (k, agg (map views (filter (\<lambda>r. key r = k) df))))
       (sort_key ord (remdups (map key df)))"

fun list_max :: "int list \<Rightarrow> int" where
  "list_max [] = 0"
| "list_max (v # vs) = fold max vs v"

definition mean :: "int list \<Rightarrow> rat" where
  "mean vs = of_int (sum_list vs) / of_nat (length vs)"

text \<open>\<^verbatim>\<open>Series.nlargest(n)\<close>: descending by value, ties in the order of the series.\<close>

definition nlargest :: "nat \<Rightarrow> ('k \<times> int) list \<Rightarrow> ('k \<times> int) list" where
  "nlargest n series = take n (sort_key (\<lambda>kv. - snd kv) series)"

text \<open>The loop of \<^verbatim>\<open>process_data\<close> over the dates.\<close>

fun fetch_all :: "network \<Rightarrow> date list \<Rightarrow> event list \<times> row list" where
  "fetch_all net [] = ([], [])"
| "fetch_all net (d # dates) =
     (let (evs, fetched) = fetch_daily_articles net d;
          (evs', articles) = fetch_all net dates
      in (evs @ evs',
          map (\<lambda>a. \<lparr>article = article a, views = views a, rank = rank a, date = d\<rparr>) fetched
            @ articles))"

type_synonym metrics = "int option \<times> rat option \<times> nat option"

definition top_articles :: "row list \<Rightarrow> string list" where
  "top_articles df =
     map fst (nlargest TOP_ARTICLES_COUNT (groupby_views id article sum_list df))"

definition process_data ::
  "network \<Rightarrow> string \<Rightarrow> string \<Rightarrow> error + (event list \<times> row list option \<times> metrics)" where
  "process_data net start_date end_date =
     (case pd_date_range start_date end_date of
        Inl e \<Rightarrow> Inl e
      | Inr dates \<Rightarrow>
          (let (evs, df) = fetch_all net dates
           in if df = [] then Inr (evs, None, (None, None, None))
              else
                (let metrics =
                       (Some (list_max (map views df)),
                        Some (mean (map snd (groupby_views toordinal date sum_list df))),
                        Some (length (remdups (map article df))));
                     df_top = filter (\<lambda>r. article r \<in> set (top_articles df)) df
                 in Inr (evs, Some df_top, metrics))))"

section \<open>The chart and the program\<close>

definition create_visualization :: "row list \<Rightarrow> metrics \<Rightarrow> error + event list" where
  "create_visualization df_top metrics =
     (if df_top = [] then Inl ValueError
      else
        (let dates = sort_key toordinal (map date df_top);
             min_date = hd dates;
             max_date = last dates;
             sorted_articles =
               map fst (sort_key (\<lambda>kv. - snd kv) (groupby_views id article list_max df_top));
             n_cols = min 5 (length sorted_articles);
             n_days = days_between min_date max_date + 1;
             (fmt, loc) =
               (if n_days \<le> 7 then (''%m/%d'', DayLocator 1)
                else if n_days \<le> 30 then (''%m/%d'', DayLocator 5)
                else if n_days \<le> 90 then (''%b %d'', DayLocator 14)
                else (''%b %Y'', MonthLocator (max 1 (nat (n_days div 30 div 4)))))
         in case metrics of
              (Some max_views, Some mean_views, Some unique_articles) \<Rightarrow>
                Inr [SaveFig ''top_articles.png''
                       \<lparr>data = df_top, col_order = sorted_articles, col_wrap = n_cols,
                        period_str = isoformat min_date @ '' to '' @ isoformat max_date,
                        title_metrics = (max_views, mean_views, unique_articles),
                        date_format = fmt, major_locator = loc\<rparr>,
                     Stdout ''Visualization saved to top_articles.png'']
            | _ \<Rightarrow> Inl TypeError))"

text \<open>
  \<^verbatim>\<open>main\<close>, after \<^verbatim>\<open>argparse\<close> has read the two positional arguments: the effects of the
  run, and the exception that ends it, if one does.  The walrus test takes the branch
  on a message that is neither \<^verbatim>\<open>None\<close> nor empty.
\<close>

definition main :: "date \<Rightarrow> network \<Rightarrow> string \<Rightarrow> string \<Rightarrow> event list \<times> error option" where
  "main current_date net start end =
     (let error_msg = validate_dates current_date start end
      in if error_msg \<noteq> None \<and> error_msg \<noteq> Some [] then ([Stdout (the error_msg)], None)
         else
           (case process_data net start end of
              Inl e \<Rightarrow> ([], Some e)
            | Inr (evs, df_top, metrics) \<Rightarrow>
                (case df_top of
                   None \<Rightarrow> (evs @ [Stdout ''No data found for the specified date range''], None)
                 | Some df \<Rightarrow>
                     (case create_visualization df metrics of
                        Inl e \<Rightarrow> (evs, Some e)
                      | Inr evs' \<Rightarrow> (evs @ evs', None)))))"

section \<open>Observations on a run\<close>

text \<open>The URLs of the GET requests of a run, in order, and the files it writes.\<close>

fun requests_of :: "event list \<Rightarrow> string list" where
  "requests_of [] = []"
| "requests_of (HttpGet u # evs) = u # requests_of evs"
| "requests_of (_ # evs) = requests_of evs"

fun files_written :: "event list \<Rightarrow> string list" where
  "files_written [] = []"
| "files_written (SaveFig f _ # evs) = f # files_written evs"
| "files_written (_ # evs) = files_written evs"


section \<open>Decimal text of small numbers\<close>

lemma dec_lt10: "n < 10 \<Longrightarrow> dec n = [digit_char n]"
  by (subst dec.simps) simp

lemma dec_lt100:
  "10 \<le> n \<Longrightarrow> n < 100 \<Longrightarrow> dec n = [digit_char (n div 10), digit_char (n mod 10)]"
  by (subst dec.simps) (simp add: dec_lt10)

lemma dec_lt1000:
  "100 \<le> n \<Longrightarrow> n < 1000 \<Longrightarrow>
     dec n = [digit_char (n div 100), digit_char (n div 10 mod 10), digit_char (n mod 10)]"
  by (subst dec.simps) (simp add: dec_lt100 div_mult2_eq [symmetric])

lemma dec_lt10000:
  "1000 \<le> n \<Longrightarrow> n < 10000 \<Longrightarrow>
     dec n = [digit_char (n div 1000), digit_char (n div 100 mod 10),
              digit_char (n div 10 mod 10), digit_char (n mod 10)]"
  by (subst dec.simps) (simp add: dec_lt1000 div_mult2_eq [symmetric])

lemma digit_char_0: "digit_char 0 = CHR ''0''"
  unfolding digit_char_def by code_simp

lemma replicate_small:
  "replicate (Suc 0) c = [c]" "replicate 2 c = [c, c]" "replicate 3 c = [c, c, c]"
  by (simp_all add: numeral_2_eq_2 numeral_3_eq_3)

lemma zfill2: "n < 100 \<Longrightarrow> zfill 2 n = [digit_char (n div 10), digit_char (n mod 10)]"
  by (cases "n < 10") (simp_all add: zfill_def dec_lt10 dec_lt100 digit_char_0 replicate_small)

lemma zfill4:
  assumes n: "n < 10000"
  shows "zfill 4 n = [digit_char (n div 1000), digit_char (n div 100 mod 10),
                      digit_char (n div 10 mod 10), digit_char (n mod 10)]"
proof -
  consider "n < 10" | "10 \<le> n" "n < 100" | "100 \<le> n" "n < 1000" | "1000 \<le> n"
    by linarith
  then show ?thesis
  proof cases
    case 1
    then show ?thesis by (simp add: zfill_def dec_lt10 digit_char_0 replicate_small)
  next
    case 2
    then show ?thesis by (simp add: zfill_def dec_lt100 digit_char_0 replicate_small)
  next
    case 3
    then show ?thesis by (simp add: zfill_def dec_lt1000 digit_char_0 replicate_small)
  next
    case 4
    with n show ?thesis by (simp add: zfill_def dec_lt10000)
  qed
qed




section \<open>The requested URL\<close>



section \<open>Validation of the command-line dates\<close>

lemma date_less_total: "date_less a b \<or> a = b \<or> date_less b a"
  by (cases a, cases b) (auto simp: date_less_def)

lemma date_less_asym: "date_less a b \<Longrightarrow> \<not> date_less b a"
  by (auto simp: date_less_def)

lemma date_less_irrefl: "\<not> date_less a a"
  by (simp add: date_less_def)

lemma date_le_iff: "date_le b a \<longleftrightarrow> \<not> date_less a b"
  using date_less_total [of a b] date_less_asym [of a b] date_less_irrefl [of a]
  by (auto simp: date_le_def)

lemma isoformat_API_START_DATE: "isoformat API_START_DATE = ''2015-07-01''"
  by (simp add: isoformat_def API_START_DATE_def zfill4 zfill2) (simp add: digit_char_def, code_simp)

lemma dec_MAX_DAYS_RANGE: "dec (nat MAX_DAYS_RANGE) = ''365''"
  by (simp add: MAX_DAYS_RANGE_def dec_lt1000) (simp add: digit_char_def, code_simp)

lemma validate_dates_nonempty: "validate_dates today s e \<noteq> Some []"
  by (simp add: validate_dates_def split: option.split)

lemma main_invalid:
  "validate_dates today s e = Some msg \<Longrightarrow> main today net s e = ([Stdout msg], None)"
  using validate_dates_nonempty [of today s e] by (simp add: main_def Let_def)

text \<open>
  Claim C4.  \<^verbatim>\<open>validate_dates\<close> returns \<^verbatim>\<open>None\<close> exactly when both strings parse with
  \<^verbatim>\<open>%Y%m%d\<close>, both dates are strictly before today, the end is strictly after the start,
  the start is on or after 2015-07-01 and the end is at most 365 days after the start.
  Otherwise it returns the message of the first check that fails, the checks taken in
  that order; \<^verbatim>\<open>main\<close> then prints the message and returns, having issued no request.
\<close>

theorem validate_dates_checks:
  "(validate_dates today s e = None \<longleftrightarrow>
      (\<exists>ds de. strptime s = Some ds \<and> strptime e = Some de
         \<and> date_less ds today \<and> date_less de today \<and> date_less ds de
         \<and> date_le API_START_DATE ds \<and> days_between ds de \<le> 365))
   \<and> (strptime s = None \<or> strptime e = None \<longrightarrow>
        validate_dates today s e = Some ''Error: Invalid date format. Use YYYYMMDD'')
   \<and> (\<forall>ds de. strptime s = Some ds \<and> strptime e = Some de \<longrightarrow>
        (\<not> (date_less ds today \<and> date_less de today) \<longrightarrow>
           validate_dates today s e =
             Some (''Error: Dates must be strictly before '' @ isoformat today
                     @ '' (no today or future dates)''))
        \<and> (date_less ds today \<and> date_less de today \<and> \<not> date_less ds de \<longrightarrow>
             validate_dates today s e = Some ''Error: End date must be > start date'')
        \<and> (date_less ds today \<and> date_less de today \<and> date_less ds de
             \<and> \<not> date_le API_START_DATE ds \<longrightarrow>
             validate_dates today s e = Some ''Error: Dates must be >= 2015-07-01'')
        \<and> (date_less ds today \<and> date_less de today \<and> date_less ds de
             \<and> date_le API_START_DATE ds \<and> \<not> days_between ds de \<le> 365 \<longrightarrow>
             validate_dates today s e = Some ''Error: Date range must be <= 365 days''))
   \<and> (\<forall>msg. validate_dates today s e = Some msg \<longrightarrow>
        main today net s e = ([Stdout msg], None)
        \<and> requests_of (fst (main today net s e)) = [])"
proof (intro conjI)
  show "validate_dates today s e = None \<longleftrightarrow>
      (\<exists>ds de. strptime s = Some ds \<and> strptime e = Some de
         \<and> date_less ds today \<and> date_less de today \<and> date_less ds de
         \<and> date_le API_START_DATE ds \<and> days_between ds de \<le> 365)"
    by (auto simp: validate_dates_def date_le_iff MAX_DAYS_RANGE_def split: option.split)
  show "strptime s = None \<or> strptime e = None \<longrightarrow>
        validate_dates today s e = Some ''Error: Invalid date format. Use YYYYMMDD''"
    by (auto simp: validate_dates_def split: option.split)
  show "\<forall>ds de. strptime s = Some ds \<and> strptime e = Some de \<longrightarrow>
        (\<not> (date_less ds today \<and> date_less de today) \<longrightarrow>
           validate_dates today s e =
             Some (''Error: Dates must be strictly before '' @ isoformat today
                     @ '' (no today or future dates)''))
        \<and> (date_less ds today \<and> date_less de today \<and> \<not> date_less ds de \<longrightarrow>
             validate_dates today s e = Some ''Error: End date must be > start date'')
        \<and> (date_less ds today \<and> date_less de today \<and> date_less ds de
             \<and> \<not> date_le API_START_DATE ds \<longrightarrow>
             validate_dates today s e = Some ''Error: Dates must be >= 2015-07-01'')
        \<and> (date_less ds today \<and> date_less de today \<and> date_less ds de
             \<and> date_le API_START_DATE ds \<and> \<not> days_between ds de \<le> 365 \<longrightarrow>
             validate_dates today s e = Some ''Error: Date range must be <= 365 days'')"
    using isoformat_API_START_DATE dec_MAX_DAYS_RANGE
    by (simp add: validate_dates_def date_le_iff MAX_DAYS_RANGE_def)
  show "\<forall>msg. validate_dates today s e = Some msg \<longrightarrow>
        main today net s e = ([Stdout msg], None)
        \<and> requests_of (fst (main today net s e)) = []"
    by (simp add: main_invalid)
qed

theorem validate_dates_checks_witness:
  "validate_dates \<lparr>year = 2026, month = 11, day = 4\<rparr> ''20240101'' ''20240105'' = None
   \<and> validate_dates \<lparr>year = 2026, month = 11, day = 4\<rparr> ''2024-01-01'' ''20240105'' =
       Some ''Error: Invalid date format. Use YYYYMMDD''
   \<and> validate_dates \<lparr>year = 2026, month = 11, day = 4\<rparr> ''20240101'' ''20261104'' =
       Some (''Error: Dates must be strictly before ''
               @ isoformat \<lparr>year = 2026, month = 11, day = 4\<rparr>
               @ '' (no today or future dates)'')
   \<and> validate_dates \<lparr>year = 2026, month = 11, day = 4\<rparr> ''20240105'' ''20240105'' =
       Some ''Error: End date must be > start date''
   \<and> validate_dates \<lparr>year = 2026, month = 11, day = 4\<rparr> ''20150630'' ''20150705'' =
       Some ''Error: Dates must be >= 2015-07-01''
   \<and> validate_dates \<lparr>year = 2026, month = 11, day = 4\<rparr> ''20240101'' ''20250101'' =
       Some ''Error: Date range must be <= 365 days''
   \<and> main \<lparr>year = 2026, month = 11, day = 4\<rparr> (\<lambda>u. Timeout) ''20240105'' ''20240105'' =
       ([Stdout ''Error: End date must be > start date''], None)"
proof -
  define T where "T = \<lparr>year = 2026, month = 11, day = 4\<rparr>"
  define A where "A = \<lparr>year = 2024, month = 1, day = 1\<rparr>"
  define B where "B = \<lparr>year = 2024, month = 1, day = 5\<rparr>"
  define C where "C = \<lparr>year = 2015, month = 6, day = 30\<rparr>"
  define D where "D = \<lparr>year = 2015, month = 7, day = 5\<rparr>"
  define E where "E = \<lparr>year = 2025, month = 1, day = 1\<rparr>"
  note defs = T_def A_def B_def C_def D_def E_def
  have p1: "strptime ''20240101'' = Some A" and p2: "strptime ''20240105'' = Some B"
    and p3: "strptime ''2024-01-01'' = None" and p4: "strptime ''20261104'' = Some T"
    and p5: "strptime ''20150630'' = Some C" and p6: "strptime ''20150705'' = Some D"
    and p7: "strptime ''20250101'' = Some E"
    unfolding defs by code_simp+
  have d1: "days_between A B \<le> 365" and d2: "\<not> days_between A E \<le> 365"
    unfolding defs by code_simp+
  have l: "date_less A T" "date_less B T" "date_less A B" "date_le API_START_DATE A"
    "\<not> date_less T T" "\<not> date_less B B" "date_less C T" "date_less D T" "date_less C D"
    "\<not> date_le API_START_DATE C" "date_less E T" "date_less A E"
    unfolding defs by (simp_all add: date_less_def date_le_def API_START_DATE_def)
  have c1: "validate_dates T ''20240101'' ''20240105'' = None"
    using validate_dates_checks [of T "''20240101''" "''20240105''" "\<lambda>u. Timeout"]
    by (simp add: p1 p2 d1 l)
  have c2: "validate_dates T ''2024-01-01'' ''20240105'' =
       Some ''Error: Invalid date format. Use YYYYMMDD''"
    using validate_dates_checks [of T "''2024-01-01''" "''20240105''" "\<lambda>u. Timeout"]
    by (simp add: p3)
  have c3: "validate_dates T ''20240101'' ''20261104'' =
       Some (''Error: Dates must be strictly before '' @ isoformat T
               @ '' (no today or future dates)'')"
    using validate_dates_checks [of T "''20240101''" "''20261104''" "\<lambda>u. Timeout"]
    by (simp add: p1 p4 l)
  have c4: "validate_dates T ''20240105'' ''20240105'' =
       Some ''Error: End date must be > start date''"
    using validate_dates_checks [of T "''20240105''" "''20240105''" "\<lambda>u. Timeout"]
    by (simp add: p2 l)
  have c5: "validate_dates T ''20150630'' ''20150705'' =
       Some ''Error: Dates must be >= 2015-07-01''"
    using validate_dates_checks [of T "''20150630''" "''20150705''" "\<lambda>u. Timeout"]
    by (simp add: p5 p6 l)
  have c6: "validate_dates T ''20240101'' ''20250101'' =
       Some ''Error: Date range must be <= 365 days''"
    using validate_dates_checks [of T "''20240101''" "''20250101''" "\<lambda>u. Timeout"]
    by (simp add: p1 p7 d2 l)
  have c7: "main T (\<lambda>u. Timeout) ''20240105'' ''20240105'' =
       ([Stdout ''Error: End date must be > start date''], None)"
    using validate_dates_checks [of T "''20240105''" "''20240105''" "\<lambda>u. Timeout"] c4
    by simp
  show ?thesis
    using c1 c2 c3 c4 c5 c6 c7 unfolding T_def by simp
qed

section \<open>The loop over the days\<close>


lemma files_written_append: "files_written (xs @ ys) = files_written xs @ files_written ys"
  by (induction xs rule: files_written.induct) simp_all

lemma files_written_fetch: "files_written (fst (fetch_daily_articles net d)) = []"
  by (simp add: fetch_daily_articles_def Let_def split: http_outcome.split option.split)

lemma fst_fetch_all_Cons:
  "fst (fetch_all net (d # dates)) = fst (fetch_daily_articles net d) @ fst (fetch_all net dates)"
  by (simp add: split_beta Let_def)

lemma snd_fetch_all_Cons:
  "snd (fetch_all net (d # dates)) =
     map (\<lambda>a. \<lparr>article = article a, views = views a, rank = rank a, date = d\<rparr>)
       (snd (fetch_daily_articles net d)) @ snd (fetch_all net dates)"
  by (simp add: split_beta Let_def)


lemma files_written_fetch_all: "files_written (fst (fetch_all net dates)) = []"
proof (induction dates)
  case Nil
  show ?case by simp
next
  case (Cons d dates)
  show ?case
    unfolding fst_fetch_all_Cons files_written_append files_written_fetch Cons.IH by simp
qed


lemma fetch_all_empty_iff:
  "snd (fetch_all net dates) = [] \<longleftrightarrow> (\<forall>d \<in> set dates. snd (fetch_daily_articles net d) = [])"
proof (induction dates)
  case Nil
  show ?case by simp
next
  case (Cons d dates)
  show ?case unfolding snd_fetch_all_Cons using Cons.IH by simp
qed





section \<open>Runs without data\<close>

lemma process_data_cases:
  assumes "pd_date_range s e = Inr dates"
  shows "process_data net s e =
     (if snd (fetch_all net dates) = [] then Inr (fst (fetch_all net dates), None, (None, None, None))
      else Inr (fst (fetch_all net dates),
                Some (filter (\<lambda>r. article r \<in> set (top_articles (snd (fetch_all net dates))))
                        (snd (fetch_all net dates))),
                (Some (list_max (map views (snd (fetch_all net dates)))),
                 Some (mean (map snd (groupby_views toordinal date sum_list
                                        (snd (fetch_all net dates))))),
                 Some (length (remdups (map article (snd (fetch_all net dates))))))))"
  using assms by (simp add: process_data_def Let_def split_beta)

lemma process_data_error:
  "pd_date_range s e = Inl x \<Longrightarrow> process_data net s e = Inl x"
  by (simp add: process_data_def)

lemma main_no_data:
  assumes "validate_dates today s e = None" and "process_data net s e = Inr (evs, None, m)"
  shows "main today net s e = (evs @ [Stdout ''No data found for the specified date range''], None)"
  using assms by (simp add: main_def Let_def)

text \<open>
  Claim C7.  \<^verbatim>\<open>process_data\<close> returns \<^verbatim>\<open>(None, (None, None, None))\<close> exactly when every
  day of the range yielded an empty article list.  A run that passed validation then
  prints \<^verbatim>\<open>No data found for the specified date range\<close> after its requests and ends
  without writing a file.
\<close>

theorem process_data_none_iff:
  assumes "pd_date_range s e = Inr dates"
  shows "((\<exists>evs. process_data net s e = Inr (evs, None, (None, None, None)))
            \<longleftrightarrow> (\<forall>d \<in> set dates. snd (fetch_daily_articles net d) = []))
    \<and> ((\<exists>evs m. process_data net s e = Inr (evs, None, m))
            \<longleftrightarrow> (\<forall>d \<in> set dates. snd (fetch_daily_articles net d) = []))
    \<and> (validate_dates today s e = None
          \<and> (\<forall>d \<in> set dates. snd (fetch_daily_articles net d) = []) \<longrightarrow>
        main today net s e =
          (fst (fetch_all net dates) @ [Stdout ''No data found for the specified date range''],
           None)
        \<and> files_written (fst (main today net s e)) = [])"
proof -
  have p: "process_data net s e =
      Inr (fst (fetch_all net dates), None, (None, None, None))"
    if "\<forall>d \<in> set dates. snd (fetch_daily_articles net d) = []"
    using that process_data_cases [OF assms, of net] by (simp add: fetch_all_empty_iff)
  have q: "\<forall>d \<in> set dates. snd (fetch_daily_articles net d) = []"
    if "process_data net s e = Inr (evs, None, m)" for evs m
    using that process_data_cases [OF assms, of net]
    by (simp add: fetch_all_empty_iff split: if_splits)
  have r: "main today net s e =
          (fst (fetch_all net dates) @ [Stdout ''No data found for the specified date range''],
           None)
        \<and> files_written (fst (main today net s e)) = []"
    if "validate_dates today s e = None"
      and "\<forall>d \<in> set dates. snd (fetch_daily_articles net d) = []"
    using main_no_data [OF that(1) p [OF that(2)]]
    by (simp add: files_written_append files_written_fetch_all)
  from p q r show ?thesis by blast
qed


theorem process_data_none_iff_witness:
  "pd_date_range ''20240101'' ''20240103'' =
     Inr [\<lparr>year = 2024, month = 1, day = 1\<rparr>, \<lparr>year = 2024, month = 1, day = 2\<rparr>,
          \<lparr>year = 2024, month = 1, day = 3\<rparr>]
   \<and> validate_dates \<lparr>year = 2026, month = 11, day = 4\<rparr> ''20240101'' ''20240103'' = None
   \<and> main \<lparr>year = 2026, month = 11, day = 4\<rparr> (\<lambda>u. Response 404 None)
         ''20240101'' ''20240103'' =
       ([HttpGet ''https://wikimedia.org/api/rest_v1/metrics/pageviews/top/en.wikipedia.org/all-access/2024/01/01'',
         HttpGet ''https://wikimedia.org/api/rest_v1/metrics/pageviews/top/en.wikipedia.org/all-access/2024/01/02'',
         HttpGet ''https://wikimedia.org/api/rest_v1/metrics/pageviews/top/en.wikipedia.org/all-access/2024/01/03'',
         Stdout ''No data found for the specified date range''], None)
   \<and> files_written (fst (main \<lparr>year = 2026, month = 11, day = 4\<rparr> (\<lambda>u. Response 404 None)
         ''20240101'' ''20240103'')) = []"
proof -
  define T where "T = \<lparr>year = 2026, month = 11, day = 4\<rparr>"
  define net :: network where "net = (\<lambda>u. Response 404 None)"
  define dates where "dates = [\<lparr>year = 2024, month = 1, day = 1\<rparr>,
    \<lparr>year = 2024, month = 1, day = 2\<rparr>, \<lparr>year = 2024, month = 1, day = 3\<rparr>]"
  have r: "pd_date_range ''20240101'' ''20240103'' = Inr dates"
    unfolding dates_def by code_simp
  have v: "validate_dates T ''20240101'' ''20240103'' = None"
    unfolding T_def by code_simp
  have f: "\<forall>d \<in> set dates. snd (fetch_daily_articles net d) = []"
    by (simp add: fetch_daily_articles_def net_def)
  have g: "fst (fetch_all net dates) =
      [HttpGet ''https://wikimedia.org/api/rest_v1/metrics/pageviews/top/en.wikipedia.org/all-access/2024/01/01'',
       HttpGet ''https://wikimedia.org/api/rest_v1/metrics/pageviews/top/en.wikipedia.org/all-access/2024/01/02'',
       HttpGet ''https://wikimedia.org/api/rest_v1/metrics/pageviews/top/en.wikipedia.org/all-access/2024/01/03'']"
    unfolding net_def dates_def by code_simp
  have "main T net ''20240101'' ''20240103'' =
          (fst (fetch_all net dates) @ [Stdout ''No data found for the specified date range''],
           None)
        \<and> files_written (fst (main T net ''20240101'' ''20240103'')) = []"
    using process_data_none_iff [OF r, of net T] v f by blast
  then have "main T net ''20240101'' ''20240103'' =
       ([HttpGet ''https://wikimedia.org/api/rest_v1/metrics/pageviews/top/en.wikipedia.org/all-access/2024/01/01'',
         HttpGet ''https://wikimedia.org/api/rest_v1/metrics/pageviews/top/en.wikipedia.org/all-access/2024/01/02'',
         HttpGet ''https://wikimedia.org/api/rest_v1/metrics/pageviews/top/en.wikipedia.org/all-access/2024/01/03'',
         Stdout ''No data found for the specified date range''], None)
      \<and> files_written (fst (main T net ''20240101'' ''20240103'')) = []"
    unfolding g by simp
  with r v show ?thesis unfolding T_def net_def dates_def by simp
qed

section \<open>The chart\<close>

lemma groupby_views_keys:
  "map fst (groupby_views ord key agg df) = sort_key ord (remdups (map key df))"
  by (simp add: groupby_views_def comp_def)

lemma set_groupby_views_keys: "fst ` set (groupby_views ord key agg df) = key ` set df"
  using arg_cong [OF groupby_views_keys, of set ord key agg df] by simp

lemma distinct_groupby_views_keys: "distinct (map fst (groupby_views ord key agg df))"
  by (simp add: groupby_views_keys)

lemma length_groupby_views: "length (groupby_views ord key agg df) = card (key ` set df)"
  using arg_cong [OF groupby_views_keys, of length ord key agg df]
  by (simp add: length_remdups_card_conv)

lemma groupby_views_nonempty: "df \<noteq> [] \<Longrightarrow> groupby_views ord key agg df \<noteq> []"
  using length_groupby_views [of ord key agg df] by (auto simp: card_eq_0_iff)

lemma distinct_map_fst_sort_key:
  "distinct (map fst xs) \<Longrightarrow> distinct (map fst (sort_key f xs))"
  by (simp add: distinct_map)


lemma set_top_articles_subset: "set (top_articles df) \<subseteq> article ` set df"
proof -
  have "set (top_articles df) \<subseteq> fst ` set (groupby_views id article sum_list df)"
    unfolding top_articles_def nlargest_def
    using set_take_subset [of TOP_ARTICLES_COUNT
        "sort_key (\<lambda>kv. - snd kv) (groupby_views id article sum_list df)"]
    by auto
  then show ?thesis by (simp add: set_groupby_views_keys)
qed

lemma length_top_articles:
  "length (top_articles df) = min TOP_ARTICLES_COUNT (card (article ` set df))"
  by (simp add: top_articles_def nlargest_def length_groupby_views min.commute)

lemma top_articles_nonempty:
  assumes "df \<noteq> []"
  shows "top_articles df \<noteq> []"
proof -
  from assms have "0 < card (article ` set df)"
    by (simp add: card_gt_0_iff)
  then have "0 < length (top_articles df)"
    unfolding length_top_articles by (simp add: TOP_ARTICLES_COUNT_def)
  then show ?thesis by simp
qed

lemma df_top_nonempty:
  assumes "df \<noteq> []"
  shows "filter (\<lambda>r. article r \<in> set (top_articles df)) df \<noteq> []"
proof -
  from top_articles_nonempty [OF assms] obtain a where a: "a \<in> set (top_articles df)"
    by (cases "top_articles df") auto
  with set_top_articles_subset [of df] obtain r where "r \<in> set df" "article r = a"
    by auto
  with a show ?thesis by (auto simp: filter_empty_conv)
qed

lemma create_visualization_saves:
  assumes "df_top \<noteq> []"
  shows "\<exists>ch. create_visualization df_top (Some a, Some b, Some c) =
            Inr [SaveFig ''top_articles.png'' ch, Stdout ''Visualization saved to top_articles.png'']
          \<and> data ch = df_top
          \<and> col_order ch =
              map fst (sort_key (\<lambda>kv. - snd kv) (groupby_views id article list_max df_top))
          \<and> col_wrap ch = min 5 (length (col_order ch))
          \<and> title_metrics ch = (a, b, c)"
  using assms by (simp add: create_visualization_def Let_def split_beta)

lemma create_visualization_files:
  "create_visualization df m = Inr evs \<Longrightarrow> files_written evs = [''top_articles.png'']"
  by (auto simp: create_visualization_def Let_def split_beta
      split: if_splits option.splits prod.splits)

lemma process_data_events:
  assumes "process_data net s e = Inr (evs, df, m)"
  shows "\<exists>dates. pd_date_range s e = Inr dates \<and> evs = fst (fetch_all net dates)"
proof (cases "pd_date_range s e")
  case (Inl x)
  with assms show ?thesis by (simp add: process_data_def)
next
  case (Inr dates)
  from assms show ?thesis
    unfolding process_data_cases [OF Inr] using Inr by (simp split: if_splits)
qed

lemma process_data_files:
  "process_data net s e = Inr (evs, df, m) \<Longrightarrow> files_written evs = []"
  using process_data_events [of net s e evs df m] by (auto simp: files_written_fetch_all)

lemma main_files_cases:
  "files_written (fst (main today net s e)) =
     (case validate_dates today s e of
        Some msg \<Rightarrow> []
      | None \<Rightarrow>
          (case process_data net s e of
             Inl x \<Rightarrow> []
           | Inr (evs, None, m) \<Rightarrow> []
           | Inr (evs, Some df, m) \<Rightarrow>
               (case create_visualization df m of
                  Inl x \<Rightarrow> []
                | Inr evs' \<Rightarrow> [''top_articles.png''])))"
  using validate_dates_nonempty [of today s e]
  by (auto simp: main_def Let_def files_written_append process_data_files
      create_visualization_files split: option.splits sum.splits prod.splits)

text \<open>
  Claim C9.  The only file a run writes is \<^verbatim>\<open>top_articles.png\<close>, at most once; a run
  whose dates fail validation and a run that finds no data write no file.
\<close>

theorem main_writes_only_chart:
  "set (files_written (fst (main today net s e))) \<subseteq> {''top_articles.png''}
   \<and> length (files_written (fst (main today net s e))) \<le> 1
   \<and> (validate_dates today s e \<noteq> None \<longrightarrow> files_written (fst (main today net s e)) = [])
   \<and> (\<forall>evs m. process_data net s e = Inr (evs, None, m) \<longrightarrow>
         files_written (fst (main today net s e)) = [])"
  unfolding main_files_cases
  by (auto split: option.splits sum.splits prod.splits)


theorem main_writes_only_chart_witness:
  "validate_dates \<lparr>year = 2026, month = 11, day = 4\<rparr> ''2024-01-01'' ''20240103'' \<noteq> None
   \<and> files_written (fst (main \<lparr>year = 2026, month = 11, day = 4\<rparr> (\<lambda>u. Response 404 None)
         ''2024-01-01'' ''20240103'')) = []
   \<and> process_data (\<lambda>u. Response 404 None) ''20240101'' ''20240102'' =
       Inr ([HttpGet ''https://wikimedia.org/api/rest_v1/metrics/pageviews/top/en.wikipedia.org/all-access/2024/01/01'',
             HttpGet ''https://wikimedia.org/api/rest_v1/metrics/pageviews/top/en.wikipedia.org/all-access/2024/01/02''],
            None, (None, None, None))
   \<and> files_written (fst (main \<lparr>year = 2026, month = 11, day = 4\<rparr> (\<lambda>u. Response 404 None)
         ''20240101'' ''20240102'')) = []"
proof -
  define T where "T = \<lparr>year = 2026, month = 11, day = 4\<rparr>"
  define net :: network where "net = (\<lambda>u. Response 404 None)"
  have v: "validate_dates T ''2024-01-01'' ''20240103'' \<noteq> None"
    unfolding T_def by code_simp
  have p: "process_data net ''20240101'' ''20240102'' =
       Inr ([HttpGet ''https://wikimedia.org/api/rest_v1/metrics/pageviews/top/en.wikipedia.org/all-access/2024/01/01'',
             HttpGet ''https://wikimedia.org/api/rest_v1/metrics/pageviews/top/en.wikipedia.org/all-access/2024/01/02''],
            None, (None, None, None))"
    unfolding net_def by code_simp
  have a: "files_written (fst (main T net ''2024-01-01'' ''20240103'')) = []"
    using main_writes_only_chart [of T net "''2024-01-01''" "''20240103''"] v by blast
  have b: "files_written (fst (main T net ''20240101'' ''20240102'')) = []"
    using main_writes_only_chart [of T net "''20240101''" "''20240102''"] p by blast
  from v a p b show ?thesis unfolding T_def net_def by blast
qed

text \<open>
  Claim C5.  A validated run that fetched at least one article row ends by saving one
  figure under the name \<^verbatim>\<open>top_articles.png\<close> and announcing it.  The figure plots the
  rows of the returned dataframe, which is not empty, in one facet per article of that
  dataframe, at most five facets to a line.
\<close>

theorem main_saves_chart:
  assumes "validate_dates today s e = None"
    and "pd_date_range s e = Inr dates"
    and "snd (fetch_all net dates) \<noteq> []"
  shows "(\<exists>ch. main today net s e =
            (fst (fetch_all net dates)
               @ [SaveFig ''top_articles.png'' ch,
                  Stdout ''Visualization saved to top_articles.png''], None)
          \<and> data ch = filter (\<lambda>r. article r \<in> set (top_articles (snd (fetch_all net dates))))
                         (snd (fetch_all net dates))
          \<and> data ch \<noteq> []
          \<and> distinct (col_order ch)
          \<and> set (col_order ch) = article ` set (data ch)
          \<and> col_wrap ch = min 5 (length (col_order ch)))
    \<and> files_written (fst (main today net s e)) = [''top_articles.png'']"
proof -
  define df where "df = snd (fetch_all net dates)"
  define df_top where "df_top = filter (\<lambda>r. article r \<in> set (top_articles df)) df"
  define mx where "mx = list_max (map views df)"
  define mn where "mn = mean (map snd (groupby_views toordinal date sum_list df))"
  define un where "un = length (remdups (map article df))"
  have ne: "df_top \<noteq> []"
    unfolding df_top_def using assms(3) by (simp add: df_top_nonempty df_def)
  have p: "process_data net s e =
      Inr (fst (fetch_all net dates), Some df_top, (Some mx, Some mn, Some un))"
    using assms(3) unfolding process_data_cases [OF assms(2)] df_top_def df_def mx_def mn_def un_def
    by simp
  from create_visualization_saves [OF ne, of mx mn un] obtain ch where
    c: "create_visualization df_top (Some mx, Some mn, Some un) =
          Inr [SaveFig ''top_articles.png'' ch, Stdout ''Visualization saved to top_articles.png'']"
    and d: "data ch = df_top"
    and o: "col_order ch =
              map fst (sort_key (\<lambda>kv. - snd kv) (groupby_views id article list_max df_top))"
    and w: "col_wrap ch = min 5 (length (col_order ch))"
    by blast
  have m: "main today net s e =
      (fst (fetch_all net dates)
         @ [SaveFig ''top_articles.png'' ch, Stdout ''Visualization saved to top_articles.png''],
       None)"
    by (simp add: main_def Let_def assms(1) p c)
  have dis: "distinct (col_order ch)"
    unfolding o by (simp add: distinct_map_fst_sort_key distinct_groupby_views_keys)
  have st: "set (col_order ch) = article ` set (data ch)"
    unfolding o d using set_groupby_views_keys [of id article list_max df_top] by simp
  have f: "files_written (fst (main today net s e)) = [''top_articles.png'']"
    unfolding m by (simp add: files_written_append files_written_fetch_all)
  have d': "data ch = filter (\<lambda>r. article r \<in> set (top_articles (snd (fetch_all net dates))))
                         (snd (fetch_all net dates))"
    using d unfolding df_top_def df_def .
  have ne': "data ch \<noteq> []"
    using ne d by simp
  have "\<exists>ch. main today net s e =
            (fst (fetch_all net dates)
               @ [SaveFig ''top_articles.png'' ch,
                  Stdout ''Visualization saved to top_articles.png''], None)
          \<and> data ch = filter (\<lambda>r. article r \<in> set (top_articles (snd (fetch_all net dates))))
                         (snd (fetch_all net dates))
          \<and> data ch \<noteq> []
          \<and> distinct (col_order ch)
          \<and> set (col_order ch) = article ` set (data ch)
          \<and> col_wrap ch = min 5 (length (col_order ch))"
    by (rule exI [of _ ch]) (intro conjI m d' ne' dis st w)
  then show ?thesis using f by (rule conjI)
qed

theorem main_saves_chart_witness:
  "validate_dates \<lparr>year = 2026, month = 11, day = 4\<rparr> ''20240101'' ''20240102'' = None
   \<and> pd_date_range ''20240101'' ''20240102'' =
       Inr [\<lparr>year = 2024, month = 1, day = 1\<rparr>, \<lparr>year = 2024, month = 1, day = 2\<rparr>]
   \<and> snd (fetch_all (\<lambda>u. Response 200 (Some [\<lparr>article = ''Main_Page'', views = 7, rank = 1\<rparr>]))
        [\<lparr>year = 2024, month = 1, day = 1\<rparr>, \<lparr>year = 2024, month = 1, day = 2\<rparr>]) \<noteq> []
   \<and> files_written (fst (main \<lparr>year = 2026, month = 11, day = 4\<rparr>
        (\<lambda>u. Response 200 (Some [\<lparr>article = ''Main_Page'', views = 7, rank = 1\<rparr>]))
        ''20240101'' ''20240102'')) = [''top_articles.png'']"
proof -
  define T where "T = \<lparr>year = 2026, month = 11, day = 4\<rparr>"
  define net :: network where
    "net = (\<lambda>u. Response 200 (Some [\<lparr>article = ''Main_Page'', views = 7, rank = 1\<rparr>]))"
  define dates where
    "dates = [\<lparr>year = 2024, month = 1, day = 1\<rparr>, \<lparr>year = 2024, month = 1, day = 2\<rparr>]"
  have v: "validate_dates T ''20240101'' ''20240102'' = None"
    unfolding T_def by code_simp
  have r: "pd_date_range ''20240101'' ''20240102'' = Inr dates"
    unfolding dates_def by code_simp
  have n: "snd (fetch_all net dates) \<noteq> []"
    unfolding dates_def snd_fetch_all_Cons by (simp add: fetch_daily_articles_def net_def)
  have "files_written (fst (main T net ''20240101'' ''20240102'')) = [''top_articles.png'']"
    using main_saves_chart [OF v r n] by blast
  with v r n show ?thesis unfolding T_def net_def dates_def by blast
qed

section \<open>The top articles\<close>











section \<open>The headline metrics\<close>








end
